theory Spec2Isabelle
  imports Complex_Main "HOL-Library.Product_Lexorder"
begin

section \<open>The scheduling and client store of \<open>calendar_schedule.py\<close>\<close>

text \<open>
  The class \<open>ScheduleSystem\<close> keeps three collections in memory: \<open>self.clients\<close>,
  \<open>self.settings\<close> and \<open>self.appointments\<close>. Every method is modelled as a function
  that takes the store and returns its result together with the store after the call.
  Writing the JSON files (\<open>_save_appointments\<close>, \<open>_save_clients\<close>, \<open>_save_settings\<close>)
  does not change the collections in memory and is left out.
\<close>

subsection \<open>Data\<close>

text \<open>
  Python's numbers are the type variable \<open>'f\<close>. Where the code adds fees, the addition is
  the \<open>+\<close> of \<open>'f\<close> and the \<open>0\<close> it starts from is the \<open>0\<close> of \<open>'f\<close>. No law of them is
  assumed, so that what is proved holds for the floats of Python with their rounding,
  their infinities and \<open>nan\<close>.
\<close>

text \<open>Values as \<open>json.load\<close> produces them.\<close>

datatype 'f json =
    JNull
  | JBool bool
  | JNum 'f
  | JStr string
  | JArr "'f json list"
  | JObj "(string \<times> 'f json) list"

text \<open>
  A client is a dictionary that \<open>update_client\<close> merges with an arbitrary dictionary, so
  it is a map from keys to values.
\<close>

type_synonym 'f client = "string \<rightharpoonup> 'f json"

text \<open>
  An appointment is the dictionary built by \<open>make_appointment\<close>. Its ten keys are
  always present and no method removes one, so it is a record. The key \<open>id\<close> is the
  field \<open>app_id\<close> (\<open>id\<close> is the identity function of HOL).
\<close>

record 'f appointment =
  app_id :: string
  client_id :: string
  client_name :: string
  date :: string
  slot_number :: string
  payment_status :: string
  total_fee :: 'f
  status :: string
  comment :: string
  timestamp :: string

text \<open>
  \<open>_load_settings\<close> merges what it reads over the defaults, so both keys of the
  settings dictionary are always present.
\<close>

record 'f settings =
  session_fee :: 'f
  time_slots :: "string list"

record 'f store =
  clients :: "'f client list"
  settings :: "'f settings"
  appointments :: "'f appointment list"

datatype error = ValueError | KeyError

text \<open>
  The dictionary \<open>default_settings\<close> of \<open>_load_settings\<close>. Its fee is the float \<open>50.00\<close>,
  the parameter \<open>fifty\<close>.
\<close>

definition default_settings :: "'f \<Rightarrow> 'f settings" where
  "default_settings fifty =
     \<lparr>session_fee = fifty,
      time_slots = [''09:00'', ''09:30'', ''10:00'', ''10:30'', ''11:00'', ''11:30'',
                    ''12:00'', ''12:30'', ''13:00'', ''13:30'', ''14:00'', ''14:30'',
                    ''15:00'', ''15:30'', ''16:00'']\<rparr>"

text \<open>
  The empty store: no client and no appointment, with the settings that
  \<open>_load_settings\<close> returns.
\<close>

definition empty_store :: "'f settings \<Rightarrow> 'f store" where
  "empty_store loaded = \<lparr>clients = [], settings = loaded, appointments = []\<rparr>"

subsection \<open>Slots and booking\<close>

text \<open>The local list \<open>booked_slots\<close> of \<open>get_available_slots\<close>.\<close>

definition booked_slots :: "'f store \<Rightarrow> string \<Rightarrow> string list" where
  "booked_slots s date_str =
     map slot_number
       (filter (\<lambda>app. date app = date_str \<and> status app \<noteq> ''Cancelled'') (appointments s))"

definition get_available_slots :: "'f store \<Rightarrow> string \<Rightarrow> string list" where
  "get_available_slots s date_str =
     filter (\<lambda>slot. slot \<notin> set (booked_slots s date_str)) (time_slots (settings s))"

definition get_total_slots_global :: "'f store \<Rightarrow> nat" where
  "get_total_slots_global s = length (time_slots (settings s))"

definition set_time_slots :: "'f store \<Rightarrow> string list \<Rightarrow> bool \<times> 'f store" where
  "set_time_slots s new_slots =
     (True, s\<lparr>settings := (settings s)\<lparr>time_slots := new_slots\<rparr>\<rparr>)"

definition get_booked_slots :: "'f store \<Rightarrow> string \<Rightarrow> nat" where
  "get_booked_slots s date_str =
     length (filter (\<lambda>app. date app = date_str \<and> status app \<noteq> ''Cancelled'') (appointments s))"

definition get_session_fee :: "'f store \<Rightarrow> 'f" where
  "get_session_fee s = session_fee (settings s)"

text \<open>
  \<open>make_appointment\<close> reads two values from its environment: the fresh identifier
  \<open>str(uuid.uuid4())\<close> and the clock \<open>datetime.now()\<close>, formatted. They are the
  parameters \<open>new_id\<close> and \<open>now\<close>.
\<close>

definition make_appointment ::
  "'f store \<Rightarrow> string \<Rightarrow> string \<Rightarrow> string \<Rightarrow> string \<Rightarrow> string \<Rightarrow> string \<Rightarrow> string
     \<Rightarrow> (bool \<times> string) \<times> 'f store" where
  "make_appointment s new_id now date_str cid cname slot cmt =
     (if slot \<notin> set (get_available_slots s date_str)
      then ((False, ''Slot '' @ slot @ '' is not available for this date.''), s)
      else
        let new_appointment =
              \<lparr>app_id = new_id, client_id = cid, client_name = cname, date = date_str,
               slot_number = slot, payment_status = ''Unpaid'',
               total_fee = get_session_fee s, status = ''Booked'', comment = cmt,
               timestamp = now\<rparr>
        in ((True, ''Appointment booked successfully.''),
            s\<lparr>appointments := appointments s @ [new_appointment]\<rparr>))"

definition delete_appointment :: "'f store \<Rightarrow> string \<Rightarrow> bool \<times> 'f store" where
  "delete_appointment s appointment_id =
     (True, s\<lparr>appointments := filter (\<lambda>app. app_id app \<noteq> appointment_id) (appointments s)\<rparr>)"

subsection \<open>Editing and payment\<close>

text \<open>
  \<open>next((app for app in self.appointments if app['id'] == appointment_id), None)\<close> is
  \<open>find\<close>. The dictionary it returns is the element of the list itself, so assigning to
  its keys changes the first appointment with that identifier, in place.
\<close>

fun update_first :: "('a \<Rightarrow> bool) \<Rightarrow> ('a \<Rightarrow> 'a) \<Rightarrow> 'a list \<Rightarrow> 'a list" where
  "update_first P f [] = []"
| "update_first P f (x # xs) = (if P x then f x # xs else x # update_first P f xs)"

definition edit_appointment ::
  "'f store \<Rightarrow> string \<Rightarrow> string \<Rightarrow> string \<Rightarrow> string \<Rightarrow> (bool \<times> string) \<times> 'f store" where
  "edit_appointment s appointment_id new_date_str new_slot_number new_comment =
     (case find (\<lambda>app. app_id app = appointment_id) (appointments s) of
        None \<Rightarrow> ((False, ''Appointment not found.''), s)
      | Some app_to_edit \<Rightarrow>
          if new_slot_number \<notin> set (get_available_slots s new_date_str)
             \<and> new_slot_number \<noteq> slot_number app_to_edit
          then ((False, ''Slot '' @ new_slot_number @ '' is not available on ''
                          @ new_date_str @ ''.''), s)
          else ((True, ''Appointment successfully updated.''),
                s\<lparr>appointments :=
                    update_first (\<lambda>app. app_id app = appointment_id)
                      (\<lambda>app. app\<lparr>date := new_date_str, slot_number := new_slot_number,
                                  comment := new_comment\<rparr>)
                      (appointments s)\<rparr>))"

definition update_appointment_payment_status :: "'f store \<Rightarrow> string \<Rightarrow> string \<Rightarrow> bool \<times> 'f store" where
  "update_appointment_payment_status s appointment_id new_status =
     (case find (\<lambda>a. app_id a = appointment_id) (appointments s) of
        Some app \<Rightarrow>
          (True, s\<lparr>appointments :=
                     update_first (\<lambda>a. app_id a = appointment_id)
                       (\<lambda>a. a\<lparr>payment_status := new_status\<rparr>) (appointments s)\<rparr>)
      | None \<Rightarrow> (False, s))"

text \<open>
  \<open>update_session_fee\<close> converts its argument with \<open>float\<close>. The conversion is the
  parameter \<open>fee\<close>: \<open>None\<close> when \<open>float\<close> raises \<open>ValueError\<close>.
\<close>

definition update_session_fee :: "'f store \<Rightarrow> 'f option \<Rightarrow> bool \<times> 'f store" where
  "update_session_fee s fee =
     (case fee of
        Some f \<Rightarrow> (True, s\<lparr>settings := (settings s)\<lparr>session_fee := f\<rparr>\<rparr>)
      | None \<Rightarrow> (False, s))"

subsection \<open>Dates\<close>

text \<open>
  \<open>datetime.strptime(text, '%Y-%m-%d')\<close>. The format is matched as CPython's
  \<open>_strptime\<close> does: four digits, a hyphen, a month \<open>1[0-2]|0[1-9]|[1-9]\<close>, a hyphen,
  a day \<open>3[01]|[12]\d|0[1-9]|[1-9]| [1-9]\<close>, and nothing after it. The date must exist:
  the year is at least 1 and the day is a day of the month. A failure is Python's
  \<open>ValueError\<close>, here \<open>None\<close>. The time of day of the result is midnight, so comparing
  two results compares year, month and day, in this order. Digits are the ASCII digits.
\<close>

type_synonym ymd = "nat \<times> nat \<times> nat"

definition digit :: "char \<Rightarrow> nat option" where
  "digit c = map_of (zip ''0123456789'' [0, 1, 2, 3, 4, 5, 6, 7, 8, 9]) c"

fun parse_year :: "string \<Rightarrow> nat option" where
  "parse_year [a, b, c, d] =
     (case (digit a, digit b, digit c, digit d) of
        (Some w, Some x, Some y, Some z) \<Rightarrow> Some (1000 * w + 100 * x + 10 * y + z)
      | _ \<Rightarrow> None)"
| "parse_year _ = None"

fun parse_month :: "string \<Rightarrow> nat option" where
  "parse_month [a] = (case digit a of Some x \<Rightarrow> (if 1 \<le> x then Some x else None) | None \<Rightarrow> None)"
| "parse_month [a, b] =
     (case (digit a, digit b) of
        (Some x, Some y) \<Rightarrow>
          (if x = 1 \<and> y \<le> 2 then Some (10 + y)
           else if x = 0 \<and> 1 \<le> y then Some y
           else None)
      | _ \<Rightarrow> None)"
| "parse_month _ = None"

fun parse_day :: "string \<Rightarrow> nat option" where
  "parse_day [a] = (case digit a of Some x \<Rightarrow> (if 1 \<le> x then Some x else None) | None \<Rightarrow> None)"
| "parse_day [a, b] =
     (case (digit a, digit b) of
        (Some x, Some y) \<Rightarrow>
          (if x = 3 \<and> y \<le> 1 then Some (30 + y)
           else if x = 1 \<or> x = 2 then Some (10 * x + y)
           else if x = 0 \<and> 1 \<le> y then Some y
           else None)
      | (None, Some y) \<Rightarrow> (if a = CHR '' '' \<and> 1 \<le> y then Some y else None)
      | _ \<Rightarrow> None)"
| "parse_day _ = None"

definition is_leap :: "nat \<Rightarrow> bool" where
  "is_leap y = (y mod 4 = 0 \<and> (y mod 100 \<noteq> 0 \<or> y mod 400 = 0))"

definition days_in_month :: "nat \<Rightarrow> nat \<Rightarrow> nat" where
  "days_in_month y m =
     (if m = 2 then (if is_leap y then 29 else 28)
      else if m = 4 \<or> m = 6 \<or> m = 9 \<or> m = 11 then 30
      else 31)"

definition strptime_ymd :: "string \<Rightarrow> ymd option" where
  "strptime_ymd text =
     (case parse_year (take 4 text) of
        None \<Rightarrow> None
      | Some y \<Rightarrow>
          (case drop 4 text of
             c # rest \<Rightarrow>
               if c \<noteq> CHR ''-'' then None
               else
                 (case parse_month (takeWhile (\<lambda>x. x \<noteq> CHR ''-'') rest) of
                    None \<Rightarrow> None
                  | Some m \<Rightarrow>
                      (case dropWhile (\<lambda>x. x \<noteq> CHR ''-'') rest of
                         h # day_text \<Rightarrow>
                           (case parse_day day_text of
                              None \<Rightarrow> None
                            | Some d \<Rightarrow>
                                if 1 \<le> y \<and> d \<le> days_in_month y m then Some (y, m, d)
                                else None)
                       | [] \<Rightarrow> None))
           | [] \<Rightarrow> None))"

subsection \<open>The daily pass\<close>

text \<open>
  \<open>run_daily_tasks\<close> formats the clock as \<open>%Y-%m-%d\<close> and parses it back, which returns
  the date of the clock: it is the parameter \<open>today\<close>. \<open>app.get('date')\<close> and
  \<open>app.get('status')\<close> are tested for truth, and a string is true when it is not
  empty. \<open>strptime\<close> is called before the status is looked at, and its \<open>ValueError\<close> is
  not caught: the pass ends there.
\<close>

fun daily_loop :: "ymd \<Rightarrow> 'f appointment list \<Rightarrow> error + 'f appointment list" where
  "daily_loop today [] = Inr []"
| "daily_loop today (app # apps) =
     (if date app \<noteq> [] \<and> status app \<noteq> [] then
        (case strptime_ymd (date app) of
           None \<Rightarrow> Inl ValueError
         | Some app_date_dt \<Rightarrow>
             (case daily_loop today apps of
                Inl e \<Rightarrow> Inl e
              | Inr apps' \<Rightarrow>
                  Inr ((if app_date_dt < today \<and> status app = ''Booked''
                        then app\<lparr>status := ''Completed''\<rparr>
                        else if app_date_dt = today \<and> status app = ''Booked''
                        then app\<lparr>status := ''Pending''\<rparr>
                        else app) # apps')))
      else
        (case daily_loop today apps of
           Inl e \<Rightarrow> Inl e
         | Inr apps' \<Rightarrow> Inr (app # apps')))"

definition run_daily_tasks :: "'f store \<Rightarrow> ymd \<Rightarrow> error + 'f store" where
  "run_daily_tasks s today =
     (case daily_loop today (appointments s) of
        Inl e \<Rightarrow> Inl e
      | Inr apps \<Rightarrow> Inr (s\<lparr>appointments := apps\<rparr>))"

subsection \<open>The financial report\<close>

text \<open>
  The dictionary that \<open>get_report_data\<close> returns. Its key \<open>appointments\<close> is the field
  \<open>report_appointments\<close> (the store has a field \<open>appointments\<close> already).
\<close>

record 'f report =
  total_revenue :: 'f
  total_paid :: 'f
  total_unpaid :: 'f
  total_bookings :: nat
  report_appointments :: "'f appointment list"

text \<open>
  The \<open>for\<close> loop, with the five local variables as the accumulator. The date of every
  appointment is parsed outside the \<open>try\<close>, whatever its status.
\<close>

fun report_loop ::
  "ymd \<Rightarrow> ymd \<Rightarrow> ('f::plus) appointment list \<Rightarrow> 'f report \<Rightarrow> error + 'f report" where
  "report_loop start_date_dt end_date_dt [] r = Inr r"
| "report_loop start_date_dt end_date_dt (app # apps) r =
     (case strptime_ymd (date app) of
        None \<Rightarrow> Inl ValueError
      | Some app_date_dt \<Rightarrow>
          if start_date_dt \<le> app_date_dt \<and> app_date_dt \<le> end_date_dt
             \<and> status app \<noteq> ''Cancelled''
          then report_loop start_date_dt end_date_dt apps
                 (if payment_status app = ''Paid''
                  then r\<lparr>report_appointments := report_appointments r @ [app],
                         total_bookings := total_bookings r + 1,
                         total_revenue := total_revenue r + total_fee app,
                         total_paid := total_paid r + total_fee app\<rparr>
                  else r\<lparr>report_appointments := report_appointments r @ [app],
                         total_bookings := total_bookings r + 1,
                         total_revenue := total_revenue r + total_fee app,
                         total_unpaid := total_unpaid r + total_fee app\<rparr>)
          else report_loop start_date_dt end_date_dt apps r)"

definition get_report_data ::
  "('f::{plus,zero}) store \<Rightarrow> string \<Rightarrow> string \<Rightarrow> error + 'f report option" where
  "get_report_data s start_date_str end_date_str =
     (case strptime_ymd start_date_str of
        None \<Rightarrow> Inr None
      | Some start_date_dt \<Rightarrow>
          (case strptime_ymd end_date_str of
             None \<Rightarrow> Inr None
           | Some end_date_dt \<Rightarrow>
               (case report_loop start_date_dt end_date_dt (appointments s)
                       \<lparr>total_revenue = 0, total_paid = 0, total_unpaid = 0,
                        total_bookings = 0, report_appointments = []\<rparr> of
                  Inl e \<Rightarrow> Inl e
                | Inr r \<Rightarrow> Inr (Some r))))"

subsection \<open>Clients\<close>

text \<open>
  \<open>client['id']\<close> raises \<open>KeyError\<close> on a dictionary without the key. \<open>client_id\<close> is a
  string, so the comparison holds when the value is that string.
\<close>

definition dict_get :: "(string \<rightharpoonup> 'f json) \<Rightarrow> string \<Rightarrow> 'f json" where
  "dict_get d k = (case d k of None \<Rightarrow> JNull | Some v \<Rightarrow> v)"

definition register_client :: "'f store \<Rightarrow> string \<Rightarrow> string \<Rightarrow> (string \<rightharpoonup> 'f json) \<Rightarrow> 'f client \<times> 'f store" where
  "register_client s new_id now client_info =
     (let new_client =
            [''id'' \<mapsto> JStr new_id,
             ''registration_date'' \<mapsto> JStr now,
             ''name'' \<mapsto> dict_get client_info ''name'',
             ''dob'' \<mapsto> dict_get client_info ''dob'',
             ''email'' \<mapsto> dict_get client_info ''email'',
             ''cellphone'' \<mapsto> dict_get client_info ''cellphone'',
             ''comments'' \<mapsto> JArr [],
             ''documents'' \<mapsto> JArr []]
      in (new_client, s\<lparr>clients := clients s @ [new_client]\<rparr>))"

text \<open>
  The loop of \<open>update_client\<close>: \<open>None\<close> when it ends without a client of that
  identifier, the list with the first such client updated otherwise. \<open>dict.update\<close>
  is \<open>++\<close>: the keys of \<open>new_info\<close> take its values, the others keep theirs.
\<close>

fun update_loop :: "string \<Rightarrow> (string \<rightharpoonup> 'f json) \<Rightarrow> 'f client list \<Rightarrow> error + 'f client list option" where
  "update_loop cid new_info [] = Inr None"
| "update_loop cid new_info (client # rest) =
     (case client ''id'' of
        None \<Rightarrow> Inl KeyError
      | Some v \<Rightarrow>
          if v = JStr cid then Inr (Some ((client ++ new_info) # rest))
          else
            (case update_loop cid new_info rest of
               Inl e \<Rightarrow> Inl e
             | Inr None \<Rightarrow> Inr None
             | Inr (Some rest') \<Rightarrow> Inr (Some (client # rest'))))"

definition update_client :: "'f store \<Rightarrow> string \<Rightarrow> (string \<rightharpoonup> 'f json) \<Rightarrow> error + bool \<times> 'f store" where
  "update_client s cid new_info =
     (case update_loop cid new_info (clients s) of
        Inl e \<Rightarrow> Inl e
      | Inr None \<Rightarrow> Inr (False, s)
      | Inr (Some cs) \<Rightarrow> Inr (True, s\<lparr>clients := cs\<rparr>))"

text \<open>
  The list comprehension of \<open>delete_client\<close> reads \<open>client['id']\<close> of every client
  before \<open>self.clients\<close> is assigned.
\<close>

fun delete_loop :: "string \<Rightarrow> 'f client list \<Rightarrow> error + 'f client list" where
  "delete_loop cid [] = Inr []"
| "delete_loop cid (client # rest) =
     (case client ''id'' of
        None \<Rightarrow> Inl KeyError
      | Some v \<Rightarrow>
          (case delete_loop cid rest of
             Inl e \<Rightarrow> Inl e
           | Inr rest' \<Rightarrow> Inr (if v \<noteq> JStr cid then client # rest' else rest')))"

definition delete_client :: "'f store \<Rightarrow> string \<Rightarrow> error + bool \<times> 'f store" where
  "delete_client s cid =
     (let initial_count = length (clients s) in
      case delete_loop cid (clients s) of
        Inl e \<Rightarrow> Inl e
      | Inr cs \<Rightarrow> Inr (length cs < initial_count, s\<lparr>clients := cs\<rparr>))"

subsection \<open>Runs of the store\<close>

text \<open>
  The calls that change the appointments or the settings, with their arguments. The
  methods that change only the clients are not part of a run: no property of a run
  below reads the clients.
\<close>

datatype 'f op =
    Book string string string string string string string
  | Edit string string string string
  | Delete string
  | Pay string string
  | Daily ymd
  | SetSlots "string list"
  | SetFee "'f option"

text \<open>
  One call. \<open>uuid.uuid4()\<close> does not return an identifier that is in use, so a booking
  whose \<open>new_id\<close> is in use is not a step of the program, and neither is anything after
  an exception of the daily pass, which ends the start of the program: both are \<open>None\<close>.
\<close>

fun apply_op :: "'f store \<Rightarrow> 'f op \<Rightarrow> 'f store option" where
  "apply_op s (Book new_id now date_str cid cname slot cmt) =
     (if new_id \<in> set (map app_id (appointments s)) then None
      else Some (snd (make_appointment s new_id now date_str cid cname slot cmt)))"
| "apply_op s (Edit appointment_id new_date_str new_slot_number new_comment) =
     Some (snd (edit_appointment s appointment_id new_date_str new_slot_number new_comment))"
| "apply_op s (Delete appointment_id) = Some (snd (delete_appointment s appointment_id))"
| "apply_op s (Pay appointment_id new_status) =
     Some (snd (update_appointment_payment_status s appointment_id new_status))"
| "apply_op s (Daily today) =
     (case run_daily_tasks s today of Inl e \<Rightarrow> None | Inr s' \<Rightarrow> Some s')"
| "apply_op s (SetSlots new_slots) = Some (snd (set_time_slots s new_slots))"
| "apply_op s (SetFee fee) = Some (snd (update_session_fee s fee))"

fun run_ops :: "'f store \<Rightarrow> 'f op list \<Rightarrow> 'f store option" where
  "run_ops s [] = Some s"
| "run_ops s (x # xs) = (case apply_op s x of None \<Rightarrow> None | Some s' \<Rightarrow> run_ops s' xs)"

definition reachable :: "'f store \<Rightarrow> bool" where
  "reachable s = (\<exists>loaded ops. run_ops (empty_store loaded) ops = Some s)"

subsection \<open>Notions of the specification\<close>

text \<open>The appointments that are not cancelled and occupy a slot label on a date.\<close>

definition occupants :: "'f store \<Rightarrow> string \<Rightarrow> string \<Rightarrow> 'f appointment list" where
  "occupants s date_str slot =
     filter (\<lambda>app. date app = date_str \<and> slot_number app = slot \<and> status app \<noteq> ''Cancelled'')
       (appointments s)"

text \<open>On every date, every slot label has at most one occupant.\<close>

definition one_per_slot :: "'f store \<Rightarrow> bool" where
  "one_per_slot s = (\<forall>date_str slot. length (occupants s date_str slot) \<le> 1)"

text \<open>
  The position of the appointment that a call with \<open>appointment_id\<close> works on: the first
  one of the list with that identifier.
\<close>

definition first_with_id :: "'f appointment list \<Rightarrow> string \<Rightarrow> nat \<Rightarrow> bool" where
  "first_with_id apps appointment_id i =
     (i < length apps \<and> app_id (apps ! i) = appointment_id
      \<and> list_all (\<lambda>app. app_id app \<noteq> appointment_id) (take i apps))"

text \<open>The stored date of an appointment lies between two dates, both included.\<close>

definition in_range :: "ymd \<Rightarrow> ymd \<Rightarrow> 'f appointment \<Rightarrow> bool" where
  "in_range start_date end_date app =
     (case strptime_ymd (date app) of
        None \<Rightarrow> False
      | Some d \<Rightarrow> start_date \<le> d \<and> d \<le> end_date)"

text \<open>The appointments a report over a range selects, in the order of the store.\<close>

definition selected :: "'f store \<Rightarrow> ymd \<Rightarrow> ymd \<Rightarrow> 'f appointment list" where
  "selected s start_date end_date =
     filter (\<lambda>app. status app \<noteq> ''Cancelled'' \<and> in_range start_date end_date app)
       (appointments s)"

text \<open>Every stored date is a date: \<open>strptime\<close> reads it.\<close>

definition dates_parse :: "'f appointment list \<Rightarrow> bool" where
  "dates_parse apps = list_all (\<lambda>app. strptime_ymd (date app) \<noteq> None) apps"



text \<open>
  A run in which every call of \<open>set_time_slots\<close> keeps the labels in use: the new list
  has the slot label of every appointment of the store it is called on. A run without
  \<open>set_time_slots\<close> is such a run.
\<close>

fun slots_kept :: "'f store \<Rightarrow> 'f op list \<Rightarrow> bool" where
  "slots_kept s [] = True"
| "slots_kept s (x # xs) =
     ((case x of
         SetSlots new_slots \<Rightarrow> list_all (\<lambda>app. slot_number app \<in> set new_slots) (appointments s)
       | _ \<Rightarrow> True)
      \<and> (case apply_op s x of None \<Rightarrow> True | Some s' \<Rightarrow> slots_kept s' xs))"

text \<open>Every client has the key \<open>id\<close>.\<close>

definition have_ids :: "'f client list \<Rightarrow> bool" where
  "have_ids cs = list_all (\<lambda>client. client ''id'' \<noteq> None) cs"

text \<open>
  The position of the client that \<open>update_client\<close> works on: the first one whose \<open>id\<close>
  is the string \<open>cid\<close>, the clients before it having another \<open>id\<close>.
\<close>

definition first_client :: "'f client list \<Rightarrow> string \<Rightarrow> nat \<Rightarrow> bool" where
  "first_client cs cid i =
     (i < length cs \<and> (cs ! i) ''id'' = Some (JStr cid)
      \<and> list_all (\<lambda>client. client ''id'' \<noteq> None \<and> client ''id'' \<noteq> Some (JStr cid)) (take i cs))"

subsection \<open>Example stores\<close>

text \<open>
  The appointment that \<open>make_appointment\<close> builds for the client Ann at the default fee.
\<close>

definition visit :: "string \<Rightarrow> string \<Rightarrow> string \<Rightarrow> rat appointment" where
  "visit new_id date_str slot =
     \<lparr>app_id = new_id, client_id = ''c1'', client_name = ''Ann'', date = date_str,
      slot_number = slot, payment_status = ''Unpaid'', total_fee = 50, status = ''Booked'',
      comment = [], timestamp = ''2024-12-30 10:00:00''\<rparr>"

text \<open>The store of a first start: nothing on disk, the fee 50.\<close>

definition first_start :: "rat store" where
  "first_start = empty_store (default_settings 50)"

text \<open>Two visits on one day, in different slots.\<close>

definition one_day :: "rat store" where
  "one_day = first_start\<lparr>appointments :=
     [visit ''a'' ''2025-01-01'' ''09:00'', visit ''b'' ''2025-01-01'' ''10:00'']\<rparr>"

text \<open>Two visits in the same slot of two different days.\<close>

definition two_days :: "rat store" where
  "two_days = first_start\<lparr>appointments :=
     [visit ''a'' ''2025-01-01'' ''09:00'', visit ''b'' ''2025-01-02'' ''09:00'']\<rparr>"

text \<open>The store after both visits of \<open>two_days\<close> are on the second day.\<close>

definition double_booked :: "rat store" where
  "double_booked = first_start\<lparr>appointments :=
     [visit ''a'' ''2025-01-02'' ''09:00'', visit ''b'' ''2025-01-02'' ''09:00'']\<rparr>"



text \<open>
  One day with a paid visit at 50, an unpaid visit at 70 and a cancelled visit, and a
  visit on the day after.
\<close>

definition report_day :: "rat store" where
  "report_day = first_start\<lparr>appointments :=
     [(visit ''a'' ''2025-01-02'' ''09:00'')\<lparr>payment_status := ''Paid''\<rparr>,
      (visit ''b'' ''2025-01-02'' ''10:00'')\<lparr>total_fee := 70\<rparr>,
      (visit ''c'' ''2025-01-02'' ''11:00'')\<lparr>status := ''Cancelled''\<rparr>,
      visit ''d'' ''2025-01-03'' ''09:00'']\<rparr>"

text \<open>Two clients as \<open>register_client\<close> stores them, and the visits of the first one.\<close>

definition ann :: "rat client" where
  "ann = [''id'' \<mapsto> JStr ''c1'', ''registration_date'' \<mapsto> JStr ''2024-12-01 09:00:00'',
          ''name'' \<mapsto> JStr ''Ann'', ''dob'' \<mapsto> JStr ''1990-05-17'',
          ''email'' \<mapsto> JStr ''ann@example.org'', ''cellphone'' \<mapsto> JStr ''555-0100'',
          ''comments'' \<mapsto> JArr [], ''documents'' \<mapsto> JArr []]"

definition bob :: "rat client" where
  "bob = [''id'' \<mapsto> JStr ''c2'', ''registration_date'' \<mapsto> JStr ''2024-12-02 09:00:00'',
          ''name'' \<mapsto> JStr ''Bob'', ''dob'' \<mapsto> JStr ''1985-11-03'',
          ''email'' \<mapsto> JStr ''bob@example.org'', ''cellphone'' \<mapsto> JStr ''555-0101'',
          ''comments'' \<mapsto> JArr [], ''documents'' \<mapsto> JArr []]"

definition with_clients :: "rat store" where
  "with_clients = one_day\<lparr>clients := [bob, ann]\<rparr>"

text \<open>The first start after the fee has been set to 75.5.\<close>

definition dearer :: "rat store" where
  "dearer = first_start\<lparr>settings := (default_settings 50)\<lparr>session_fee := 151 / 2\<rparr>\<rparr>"


text \<open>The visits of \<open>one_day\<close> after the date of the first was edited to a word.\<close>

definition mistyped :: "rat store" where
  "mistyped = first_start\<lparr>appointments :=
     [visit ''a'' ''tomorrow'' ''09:00'', visit ''b'' ''2025-01-01'' ''10:00'']\<rparr>"

text \<open>
  The clients of \<open>with_clients\<close> after an update of Ann with the identifier of Bob: two
  clients have the identifier \<open>c2\<close>.
\<close>

definition same_ids :: "rat store" where
  "same_ids = one_day\<lparr>clients := [bob, ann ++ [''id'' \<mapsto> JStr ''c2'']]\<rparr>"

section \<open>Booking\<close>

text \<open>The equations that evaluate a store of the examples and a date.\<close>

lemmas store_simps = first_start_def empty_store_def default_settings_def visit_def
  get_available_slots_def booked_slots_def

lemmas date_simps = strptime_ymd_def digit_def days_in_month_def is_leap_def

lemma in_available_iff:
  "slot \<in> set (get_available_slots s d) \<longleftrightarrow>
     slot \<in> set (time_slots (settings s)) \<and> slot \<notin> set (booked_slots s d)"
  by (simp add: get_available_slots_def)

text \<open>
  C1. Booking a slot that \<open>get_available_slots\<close> does not list for the date fails and
  returns the store as it was. Booking a listed slot succeeds and appends one
  appointment, with status \<open>Booked\<close>, payment status \<open>Unpaid\<close> and the session fee that
  the settings hold at the call, after the appointments that were there.
\<close>

theorem make_appointment_result:
  "(slot \<notin> set (get_available_slots s d) \<longrightarrow>
      (\<exists>msg. make_appointment s new_id now d cid cname slot cmt = ((False, msg), s))) \<and>
   (slot \<in> set (get_available_slots s d) \<longrightarrow>
      (\<exists>msg. make_appointment s new_id now d cid cname slot cmt =
                 ((True, msg),
                  s\<lparr>appointments := appointments s @
                     [\<lparr>app_id = new_id, client_id = cid, client_name = cname, date = d,
                       slot_number = slot, payment_status = ''Unpaid'',
                       total_fee = session_fee (settings s), status = ''Booked'',
                       comment = cmt, timestamp = now\<rparr>]\<rparr>)))"
  by (simp add: make_appointment_def get_session_fee_def)

text \<open>
  In \<open>dearer\<close> the fee has been set to 75.5 by \<open>update_session_fee\<close>: the booking carries
  75.5, not the default.
\<close>

theorem make_appointment_result_witness:
  "update_session_fee first_start (Some (151 / 2)) = (True, dearer) \<and>
   ''08:00'' \<notin> set (get_available_slots dearer ''2025-01-01'') \<and>
   (\<exists>msg. make_appointment dearer ''a1'' ''2024-12-30 10:00:00'' ''2025-01-01''
            ''c1'' ''Ann'' ''08:00'' ''first visit'' = ((False, msg), dearer)) \<and>
   ''09:00'' \<in> set (get_available_slots dearer ''2025-01-01'') \<and>
   (\<exists>msg. make_appointment dearer ''a1'' ''2024-12-30 10:00:00'' ''2025-01-01''
            ''c1'' ''Ann'' ''09:00'' ''first visit'' =
              ((True, msg),
               dearer\<lparr>appointments :=
                 [\<lparr>app_id = ''a1'', client_id = ''c1'', client_name = ''Ann'',
                   date = ''2025-01-01'', slot_number = ''09:00'', payment_status = ''Unpaid'',
                   total_fee = 151 / 2, status = ''Booked'',
                   comment = ''first visit'', timestamp = ''2024-12-30 10:00:00''\<rparr>]\<rparr>))"
proof -
  have set_fee: "update_session_fee first_start (Some (151 / 2)) = (True, dearer)"
    by (simp add: update_session_fee_def dearer_def store_simps)
  have no: "''08:00'' \<notin> set (get_available_slots dearer ''2025-01-01'')"
    by (simp add: dearer_def store_simps)
  have yes: "''09:00'' \<in> set (get_available_slots dearer ''2025-01-01'')"
    by (simp add: dearer_def store_simps)
  have fee: "session_fee (settings dearer) = 151 / 2" and none: "appointments dearer = []"
    by (simp_all add: dearer_def store_simps)
  from no
    make_appointment_result [of "''08:00''" dearer "''2025-01-01''" "''a1''"
      "''2024-12-30 10:00:00''" "''c1''" "''Ann''" "''first visit''"]
  have refused: "\<exists>msg. make_appointment dearer ''a1'' ''2024-12-30 10:00:00'' ''2025-01-01''
            ''c1'' ''Ann'' ''08:00'' ''first visit'' = ((False, msg), dearer)"
    by blast
  from yes
    make_appointment_result [of "''09:00''" dearer "''2025-01-01''" "''a1''"
      "''2024-12-30 10:00:00''" "''c1''" "''Ann''" "''first visit''"]
  have booked: "\<exists>msg. make_appointment dearer ''a1'' ''2024-12-30 10:00:00'' ''2025-01-01''
            ''c1'' ''Ann'' ''09:00'' ''first visit'' =
              ((True, msg),
               dearer\<lparr>appointments :=
                 [\<lparr>app_id = ''a1'', client_id = ''c1'', client_name = ''Ann'',
                   date = ''2025-01-01'', slot_number = ''09:00'', payment_status = ''Unpaid'',
                   total_fee = 151 / 2, status = ''Booked'',
                   comment = ''first visit'', timestamp = ''2024-12-30 10:00:00''\<rparr>]\<rparr>)"
    by (simp add: fee none)
  from set_fee no refused yes booked show ?thesis by blast
qed

lemma booked_slots_snoc:
  "booked_slots (s\<lparr>appointments := appointments s @ [a]\<rparr>) d =
     booked_slots s d @ (if date a = d \<and> status a \<noteq> ''Cancelled'' then [slot_number a] else [])"
  by (simp add: booked_slots_def)

text \<open>
  C6. After a booking that succeeds, \<open>get_available_slots\<close> for the date of the booking
  no longer lists the slot that was booked.
\<close>

theorem booked_slot_not_available:
  assumes "make_appointment s new_id now d cid cname slot cmt = ((True, msg), s')"
  shows "slot \<notin> set (get_available_slots s' d)"
proof -
  from assms obtain a where s': "s' = s\<lparr>appointments := appointments s @ [a]\<rparr>"
    and a: "date a = d" "status a = ''Booked''" "slot_number a = slot"
    by (auto simp: make_appointment_def Let_def split: if_splits)
  have "slot \<in> set (booked_slots s' d)"
    unfolding s' booked_slots_snoc using a by simp
  then show ?thesis by (simp add: in_available_iff)
qed

theorem booked_slot_not_available_witness:
  "make_appointment first_start ''a1'' ''2024-12-30 10:00:00'' ''2025-01-01''
      ''c1'' ''Ann'' ''09:00'' ''first visit'' =
     ((True, ''Appointment booked successfully.''),
      first_start\<lparr>appointments :=
        [\<lparr>app_id = ''a1'', client_id = ''c1'', client_name = ''Ann'',
                 date = ''2025-01-01'', slot_number = ''09:00'', payment_status = ''Unpaid'',
                 total_fee = 50, status = ''Booked'',
                 comment = ''first visit'', timestamp = ''2024-12-30 10:00:00''\<rparr>]\<rparr>) \<and>
   ''09:00'' \<notin> set (get_available_slots
      (first_start\<lparr>appointments :=
        [\<lparr>app_id = ''a1'', client_id = ''c1'', client_name = ''Ann'',
                 date = ''2025-01-01'', slot_number = ''09:00'', payment_status = ''Unpaid'',
                 total_fee = 50, status = ''Booked'',
                 comment = ''first visit'', timestamp = ''2024-12-30 10:00:00''\<rparr>]\<rparr>) ''2025-01-01'')"
proof -
  have run: "make_appointment first_start ''a1'' ''2024-12-30 10:00:00'' ''2025-01-01''
      ''c1'' ''Ann'' ''09:00'' ''first visit'' =
     ((True, ''Appointment booked successfully.''),
      first_start\<lparr>appointments :=
        [\<lparr>app_id = ''a1'', client_id = ''c1'', client_name = ''Ann'',
                 date = ''2025-01-01'', slot_number = ''09:00'', payment_status = ''Unpaid'',
                 total_fee = 50, status = ''Booked'',
                 comment = ''first visit'', timestamp = ''2024-12-30 10:00:00''\<rparr>]\<rparr>)"
    by (simp add: make_appointment_def get_available_slots_def booked_slots_def
          get_session_fee_def first_start_def empty_store_def default_settings_def)
  from run booked_slot_not_available [OF run] show ?thesis by simp
qed

section \<open>Editing\<close>

lemma find_at_first:
  "i < length xs \<Longrightarrow> P (xs ! i) \<Longrightarrow> list_all (\<lambda>x. \<not> P x) (take i xs) \<Longrightarrow>
   find P xs = Some (xs ! i)"
proof (induction xs arbitrary: i)
  case Nil
  then show ?case by simp
next
  case (Cons x xs)
  show ?case
  proof (cases i)
    case 0
    with Cons.prems show ?thesis by simp
  next
    case (Suc j)
    with Cons.prems have "\<not> P x" "j < length xs" "P (xs ! j)" "list_all (\<lambda>x. \<not> P x) (take j xs)"
      by simp_all
    with Cons.IH [of j] Suc show ?thesis by simp
  qed
qed

lemma update_first_at_first:
  "i < length xs \<Longrightarrow> P (xs ! i) \<Longrightarrow> list_all (\<lambda>x. \<not> P x) (take i xs) \<Longrightarrow>
   update_first P f xs = xs[i := f (xs ! i)]"
proof (induction xs arbitrary: i)
  case Nil
  then show ?case by simp
next
  case (Cons x xs)
  show ?case
  proof (cases i)
    case 0
    with Cons.prems show ?thesis by simp
  next
    case (Suc j)
    with Cons.prems have "\<not> P x" "j < length xs" "P (xs ! j)" "list_all (\<lambda>x. \<not> P x) (take j xs)"
      by simp_all
    with Cons.IH [of j] Suc show ?thesis by simp
  qed
qed

lemma first_index_exists:
  "\<exists>x \<in> set xs. P x \<Longrightarrow>
   \<exists>i. i < length xs \<and> P (xs ! i) \<and> list_all (\<lambda>x. \<not> P x) (take i xs)"
proof (induction xs)
  case Nil
  then show ?case by simp
next
  case (Cons x xs)
  show ?case
  proof (cases "P x")
    case True
    then have "0 < length (x # xs) \<and> P ((x # xs) ! 0) \<and> list_all (\<lambda>x. \<not> P x) (take 0 (x # xs))"
      by simp
    then show ?thesis by blast
  next
    case False
    with Cons.prems have "\<exists>x \<in> set xs. P x" by simp
    with Cons.IH obtain j where "j < length xs" "P (xs ! j)" "list_all (\<lambda>x. \<not> P x) (take j xs)"
      by blast
    with False have "Suc j < length (x # xs) \<and> P ((x # xs) ! Suc j)
        \<and> list_all (\<lambda>x. \<not> P x) (take (Suc j) (x # xs))"
      by simp
    then show ?thesis by blast
  qed
qed

text \<open>
  C3. \<open>edit_appointment\<close> fails when no appointment has the identifier. Otherwise it
  works on the first appointment with the identifier: it fails when the new slot is not
  in \<open>get_available_slots\<close> of the new date and is not the slot label the appointment
  has (the labels are compared, the dates are not), and in every other case it succeeds
  and sets the date, the slot and the comment of that appointment, at its place in the
  list.
\<close>

theorem edit_appointment_result:
  "(aid \<notin> app_id ` set (appointments s) \<longrightarrow>
      (\<exists>msg. edit_appointment s aid d slot c = ((False, msg), s))) \<and>
   (aid \<in> app_id ` set (appointments s) \<longrightarrow> (\<exists>i. first_with_id (appointments s) aid i)) \<and>
   (\<forall>i. first_with_id (appointments s) aid i \<longrightarrow>
      (slot \<notin> set (get_available_slots s d) \<and> slot \<noteq> slot_number (appointments s ! i) \<longrightarrow>
         (\<exists>msg. edit_appointment s aid d slot c = ((False, msg), s))) \<and>
      (slot \<in> set (get_available_slots s d) \<or> slot = slot_number (appointments s ! i) \<longrightarrow>
         (\<exists>msg. edit_appointment s aid d slot c =
            ((True, msg),
             s\<lparr>appointments := (appointments s)
                  [i := (appointments s ! i)\<lparr>date := d, slot_number := slot, comment := c\<rparr>]\<rparr>))))"
proof (intro conjI allI impI)
  assume "aid \<notin> app_id ` set (appointments s)"
  then have "find (\<lambda>app. app_id app = aid) (appointments s) = None"
    by (auto simp: find_None_iff)
  then show "\<exists>msg. edit_appointment s aid d slot c = ((False, msg), s)"
    by (simp add: edit_appointment_def)
next
  assume "aid \<in> app_id ` set (appointments s)"
  then have "\<exists>x \<in> set (appointments s). app_id x = aid" by auto
  from first_index_exists [of "appointments s" "\<lambda>x. app_id x = aid", OF this]
  show "\<exists>i. first_with_id (appointments s) aid i"
    by (simp add: first_with_id_def)
next
  fix i
  assume i: "first_with_id (appointments s) aid i"
    and no: "slot \<notin> set (get_available_slots s d) \<and> slot \<noteq> slot_number (appointments s ! i)"
  from i have "find (\<lambda>app. app_id app = aid) (appointments s) = Some (appointments s ! i)"
    by (intro find_at_first) (simp_all add: first_with_id_def)
  with no show "\<exists>msg. edit_appointment s aid d slot c = ((False, msg), s)"
    by (simp add: edit_appointment_def)
next
  fix i
  assume i: "first_with_id (appointments s) aid i"
    and ok: "slot \<in> set (get_available_slots s d) \<or> slot = slot_number (appointments s ! i)"
  let ?f = "\<lambda>app. app\<lparr>date := d, slot_number := slot, comment := c\<rparr>"
  from i have f: "find (\<lambda>app. app_id app = aid) (appointments s) = Some (appointments s ! i)"
    by (intro find_at_first) (simp_all add: first_with_id_def)
  from i have u: "update_first (\<lambda>app. app_id app = aid) ?f (appointments s) =
      (appointments s)[i := ?f (appointments s ! i)]"
    by (intro update_first_at_first) (simp_all add: first_with_id_def)
  from ok have "\<not> (slot \<notin> set (get_available_slots s d) \<and> slot \<noteq> slot_number (appointments s ! i))"
    by blast
  with f u show "\<exists>msg. edit_appointment s aid d slot c =
      ((True, msg), s\<lparr>appointments := (appointments s)[i := ?f (appointments s ! i)]\<rparr>)"
    by (simp add: edit_appointment_def)
qed

theorem edit_appointment_result_witness:
  "''zz'' \<notin> app_id ` set (appointments one_day) \<and>
   (\<exists>msg. edit_appointment one_day ''zz'' ''2025-01-01'' ''11:00'' ''later'' = ((False, msg), one_day)) \<and>
   first_with_id (appointments one_day) ''a'' 0 \<and>
   ''10:00'' \<notin> set (get_available_slots one_day ''2025-01-01'') \<and>
   ''10:00'' \<noteq> slot_number (appointments one_day ! 0) \<and>
   (\<exists>msg. edit_appointment one_day ''a'' ''2025-01-01'' ''10:00'' ''later'' = ((False, msg), one_day)) \<and>
   ''11:00'' \<in> set (get_available_slots one_day ''2025-01-01'') \<and>
   (\<exists>msg. edit_appointment one_day ''a'' ''2025-01-01'' ''11:00'' ''later'' =
      ((True, msg),
       one_day\<lparr>appointments := (appointments one_day)
         [0 := (appointments one_day ! 0)\<lparr>date := ''2025-01-01'', slot_number := ''11:00'',
                                           comment := ''later''\<rparr>]\<rparr>))"
proof -
  have h1: "''zz'' \<notin> app_id ` set (appointments one_day)"
    by (simp add: one_day_def store_simps)
  have h2: "first_with_id (appointments one_day) ''a'' 0"
    by (simp add: first_with_id_def one_day_def store_simps)
  have h3: "''10:00'' \<notin> set (get_available_slots one_day ''2025-01-01'')"
    by (simp add: one_day_def store_simps)
  have h4: "''10:00'' \<noteq> slot_number (appointments one_day ! 0)"
    by (simp add: one_day_def store_simps)
  have h5: "''11:00'' \<in> set (get_available_slots one_day ''2025-01-01'')"
    by (simp add: one_day_def store_simps)
  from h1 h2 h3 h4 h5
    edit_appointment_result [of "''zz''" one_day "''2025-01-01''" "''11:00''" "''later''"]
    edit_appointment_result [of "''a''" one_day "''2025-01-01''" "''10:00''" "''later''"]
    edit_appointment_result [of "''a''" one_day "''2025-01-01''" "''11:00''" "''later''"]
  show ?thesis by blast
qed

text \<open>
  An edit onto the date and slot of an appointment that is not cancelled fails, and
  changes nothing, when the label of that slot is not the label the edited appointment
  has.
\<close>

lemma edit_onto_other_label_fails:
  assumes first: "first_with_id (appointments s) aid i"
    and other: "b \<in> set (appointments s)" "status b \<noteq> ''Cancelled''"
    and label: "slot_number (appointments s ! i) \<noteq> slot_number b"
  shows "\<exists>msg. edit_appointment s aid (date b) (slot_number b) c = ((False, msg), s)"
proof -
  from first have "find (\<lambda>app. app_id app = aid) (appointments s) = Some (appointments s ! i)"
    by (intro find_at_first) (simp_all add: first_with_id_def)
  moreover from other have "slot_number b \<in> set (booked_slots s (date b))"
    by (auto simp: booked_slots_def)
  then have "slot_number b \<notin> set (get_available_slots s (date b))"
    by (simp add: in_available_iff)
  ultimately show ?thesis using label by (simp add: edit_appointment_def)
qed

text \<open>
  C4. Editing an appointment onto the date and slot of another appointment that is not
  cancelled should fail and leave both as they were. In \<open>two_days\<close> the visits \<open>a\<close> and
  \<open>b\<close> have the same slot label on different days: the edit of \<open>a\<close> onto the date and
  slot of \<open>b\<close> is let through by the comparison of labels, and it succeeds.
\<close>

theorem edit_onto_occupied_slot:
  "status (appointments two_days ! 0) \<noteq> ''Cancelled'' \<and>
   status (appointments two_days ! 1) \<noteq> ''Cancelled'' \<and>
   app_id (appointments two_days ! 0) \<noteq> app_id (appointments two_days ! 1) \<and>
   first_with_id (appointments two_days) ''a'' 0 \<and>
   date (appointments two_days ! 1) = ''2025-01-02'' \<and>
   slot_number (appointments two_days ! 1) = ''09:00'' \<and>
   edit_appointment two_days ''a'' ''2025-01-02'' ''09:00'' [] =
     ((True, ''Appointment successfully updated.''), double_booked)"
  by (simp add: edit_appointment_def first_with_id_def two_days_def double_booked_def store_simps)

section \<open>One appointment for a slot of a date\<close>

lemma occupants_snoc:
  "occupants (s\<lparr>appointments := appointments s @ [a]\<rparr>) d slot =
     occupants s d slot @
       (if date a = d \<and> slot_number a = slot \<and> status a \<noteq> ''Cancelled'' then [a] else [])"
  by (simp add: occupants_def)

lemma available_no_occupant:
  assumes "slot \<in> set (get_available_slots s d)"
  shows "occupants s d slot = []"
proof -
  from assms have "slot \<notin> set (booked_slots s d)" by (simp add: in_available_iff)
  then have "\<forall>a \<in> set (appointments s).
      \<not> (date a = d \<and> slot_number a = slot \<and> status a \<noteq> ''Cancelled'')"
    by (auto simp: booked_slots_def)
  then show ?thesis by (simp add: occupants_def filter_empty_conv)
qed

text \<open>Booking keeps the property: it refuses a slot that has an occupant.\<close>

lemma make_appointment_one_per_slot:
  assumes inv: "one_per_slot s"
  shows "one_per_slot (snd (make_appointment s new_id now d cid cname slot cmt))"
proof (cases "slot \<in> set (get_available_slots s d)")
  case False
  with inv show ?thesis by (simp add: make_appointment_def)
next
  case True
  let ?a = "\<lparr>app_id = new_id, client_id = cid, client_name = cname, date = d,
             slot_number = slot, payment_status = ''Unpaid'', total_fee = get_session_fee s,
             status = ''Booked'', comment = cmt, timestamp = now\<rparr>"
  from True have s': "snd (make_appointment s new_id now d cid cname slot cmt) =
      s\<lparr>appointments := appointments s @ [?a]\<rparr>"
    by (simp add: make_appointment_def)
  have "length (occupants (s\<lparr>appointments := appointments s @ [?a]\<rparr>) d' slot') \<le> 1"
    for d' slot'
  proof (cases "d' = d \<and> slot' = slot")
    case True
    with available_no_occupant [OF \<open>slot \<in> set (get_available_slots s d)\<close>]
    show ?thesis by (simp add: occupants_snoc)
  next
    case False
    with inv show ?thesis by (auto simp: occupants_snoc one_per_slot_def)
  qed
  with s' show ?thesis by (simp add: one_per_slot_def)
qed

text \<open>
  C2. In every store reached from the empty one, a slot label of a date should have at
  most one appointment that is not cancelled. Two bookings of 09:00 on two days and
  the edit of C4 give \<open>double_booked\<close>, where 09:00 on the second day has two.
\<close>

theorem double_booking_reachable:
  "run_ops first_start
     [Book ''a'' ''2024-12-30 10:00:00'' ''2025-01-01'' ''c1'' ''Ann'' ''09:00'' [],
      Book ''b'' ''2024-12-30 10:00:00'' ''2025-01-02'' ''c1'' ''Ann'' ''09:00'' [],
      Edit ''a'' ''2025-01-02'' ''09:00'' []] = Some double_booked \<and>
   reachable double_booked \<and>
   occupants double_booked ''2025-01-02'' ''09:00'' =
     [visit ''a'' ''2025-01-02'' ''09:00'', visit ''b'' ''2025-01-02'' ''09:00''] \<and>
   \<not> one_per_slot double_booked"
proof -
  have run: "run_ops first_start
     [Book ''a'' ''2024-12-30 10:00:00'' ''2025-01-01'' ''c1'' ''Ann'' ''09:00'' [],
      Book ''b'' ''2024-12-30 10:00:00'' ''2025-01-02'' ''c1'' ''Ann'' ''09:00'' [],
      Edit ''a'' ''2025-01-02'' ''09:00'' []] = Some double_booked"
    by (simp add: make_appointment_def edit_appointment_def get_session_fee_def double_booked_def store_simps)
  then have reach: "reachable double_booked" unfolding reachable_def first_start_def by blast
  have occ: "occupants double_booked ''2025-01-02'' ''09:00'' =
      [visit ''a'' ''2025-01-02'' ''09:00'', visit ''b'' ''2025-01-02'' ''09:00'']"
    by (simp add: occupants_def double_booked_def store_simps)
  then have "\<not> length (occupants double_booked ''2025-01-02'' ''09:00'') \<le> 1" by simp
  then have "\<not> one_per_slot double_booked" unfolding one_per_slot_def by blast
  with run reach occ show ?thesis by simp
qed

section \<open>Available and booked slots\<close>










text \<open>A run without \<open>set_time_slots\<close> keeps the labels in use.\<close>

lemma slots_kept_without_set_time_slots:
  "list_all (\<lambda>x. case x of SetSlots new_slots \<Rightarrow> False | _ \<Rightarrow> True) ops \<Longrightarrow> slots_kept s ops"
  by (induction ops arbitrary: s) (auto split: op.splits option.splits)




section \<open>The daily pass\<close>








section \<open>The financial report\<close>

text \<open>
  The totals are left folds of \<open>+\<close> over the fees in the order of the store, from the
  value the loop starts with.
\<close>

lemma report_loop_folds:
  "dates_parse apps \<Longrightarrow>
   report_loop st en apps r =
     Inr \<lparr>total_revenue = foldl (+) (total_revenue r)
            (map total_fee
              (filter (\<lambda>app. status app \<noteq> ''Cancelled'' \<and> in_range st en app) apps)),
          total_paid = foldl (+) (total_paid r)
            (map total_fee (filter (\<lambda>x. payment_status x = ''Paid'')
              (filter (\<lambda>app. status app \<noteq> ''Cancelled'' \<and> in_range st en app) apps))),
          total_unpaid = foldl (+) (total_unpaid r)
            (map total_fee (filter (\<lambda>x. payment_status x \<noteq> ''Paid'')
              (filter (\<lambda>app. status app \<noteq> ''Cancelled'' \<and> in_range st en app) apps))),
          total_bookings = total_bookings r
             + length (filter (\<lambda>app. status app \<noteq> ''Cancelled'' \<and> in_range st en app) apps),
          report_appointments = report_appointments r
             @ filter (\<lambda>app. status app \<noteq> ''Cancelled'' \<and> in_range st en app) apps\<rparr>"
proof (induction apps arbitrary: r)
  case Nil
  then show ?case by simp
next
  case (Cons app apps)
  from Cons.prems obtain dt where dt: "strptime_ymd (date app) = Some dt"
    and rest: "dates_parse apps"
    by (auto simp: dates_parse_def)
  let ?P = "\<lambda>app. status app \<noteq> ''Cancelled'' \<and> in_range st en app"
  show ?case
  proof (cases "st \<le> dt \<and> dt \<le> en \<and> status app \<noteq> ''Cancelled''")
    case False
    with dt have drop: "\<not> ?P app"
      by (auto simp: in_range_def)
    from False dt have step: "report_loop st en (app # apps) r = report_loop st en apps r"
      by auto
    from drop have flt: "filter ?P (app # apps) = filter ?P apps"
      by simp
    show ?thesis unfolding step flt by (rule Cons.IH [OF rest])
  next
    case True
    with dt have sel: "?P app"
      by (simp add: in_range_def)
    then have flt: "filter ?P (app # apps) = app # filter ?P apps"
      by simp
    show ?thesis
    proof (cases "payment_status app = ''Paid''")
      case paid: True
      from True dt paid have step: "report_loop st en (app # apps) r =
          report_loop st en apps
            (r\<lparr>report_appointments := report_appointments r @ [app],
               total_bookings := total_bookings r + 1,
               total_revenue := total_revenue r + total_fee app,
               total_paid := total_paid r + total_fee app\<rparr>)"
        by simp
      show ?thesis unfolding step flt Cons.IH [OF rest] using paid by simp
    next
      case unpaid: False
      from True dt unpaid have step: "report_loop st en (app # apps) r =
          report_loop st en apps
            (r\<lparr>report_appointments := report_appointments r @ [app],
               total_bookings := total_bookings r + 1,
               total_revenue := total_revenue r + total_fee app,
               total_unpaid := total_unpaid r + total_fee app\<rparr>)"
        by simp
      show ?thesis unfolding step flt Cons.IH [OF rest] using unpaid by simp
    qed
  qed
qed

text \<open>
  The loop raises \<open>ValueError\<close> when a stored date is not a date, whatever the status of
  the appointment.
\<close>

lemma report_loop_raises:
  "\<not> dates_parse apps \<Longrightarrow> report_loop st en apps r = Inl ValueError"
  by (induction apps arbitrary: r) (auto simp: dates_parse_def split: option.splits)

text \<open>
  C8, as stated: for two strings that are dates the call returns a report. In
  \<open>mistyped\<close>, reached by two bookings and an edit that gives the first the date
  \<open>tomorrow\<close>, the call with two dates raises \<open>ValueError\<close>: it returns neither \<open>None\<close>
  nor a report.
\<close>

theorem get_report_data_counterexample:
  "run_ops first_start
     [Book ''a'' ''2024-12-30 10:00:00'' ''2025-01-01'' ''c1'' ''Ann'' ''09:00'' [],
      Book ''b'' ''2024-12-30 10:00:00'' ''2025-01-01'' ''c1'' ''Ann'' ''10:00'' [],
      Edit ''a'' ''tomorrow'' ''09:00'' []] = Some mistyped \<and>
   strptime_ymd ''2025-01-01'' = Some (2025, 1, 1) \<and>
   strptime_ymd ''2025-01-02'' = Some (2025, 1, 2) \<and>
   get_report_data mistyped ''2025-01-01'' ''2025-01-02'' = Inl ValueError"
  by (simp add: make_appointment_def edit_appointment_def get_session_fee_def mistyped_def
        get_report_data_def store_simps date_simps)

text \<open>
  C8, amended. \<open>get_report_data\<close> returns \<open>None\<close> when one of the two strings is not a
  date. When both are and every stored date is a date, it returns the appointments
  that are not cancelled and whose date is in the range, both ends included, in the
  order of the store, with the sum of their fees as revenue, the sum of the fees of
  those with payment status \<open>Paid\<close> as paid, the sum of the fees of the others as unpaid,
  and their number as bookings; every sum is taken from \<open>0\<close> in the order of the store.
  When both are and a stored date is not a date, it raises \<open>ValueError\<close>.
\<close>

theorem get_report_data_result:
  "(strptime_ymd a = None \<or> strptime_ymd b = None \<longrightarrow> get_report_data s a b = Inr None) \<and>
   (\<forall>st en. strptime_ymd a = Some st \<and> strptime_ymd b = Some en \<and> dates_parse (appointments s) \<longrightarrow>
      get_report_data s a b =
        Inr (Some \<lparr>total_revenue = foldl (+) 0 (map total_fee (selected s st en)),
                   total_paid = foldl (+) 0 (map total_fee
                     (filter (\<lambda>x. payment_status x = ''Paid'') (selected s st en))),
                   total_unpaid = foldl (+) 0 (map total_fee
                     (filter (\<lambda>x. payment_status x \<noteq> ''Paid'') (selected s st en))),
                   total_bookings = length (selected s st en),
                   report_appointments = selected s st en\<rparr>)) \<and>
   (strptime_ymd a \<noteq> None \<and> strptime_ymd b \<noteq> None \<and> \<not> dates_parse (appointments s) \<longrightarrow>
      get_report_data s a b = Inl ValueError)"
proof -
  have none: "get_report_data s a b = Inr None"
    if "strptime_ymd a = None \<or> strptime_ymd b = None"
    using that by (auto simp: get_report_data_def split: option.splits)
  have some: "get_report_data s a b =
        Inr (Some \<lparr>total_revenue = foldl (+) 0 (map total_fee (selected s st en)),
                   total_paid = foldl (+) 0 (map total_fee
                     (filter (\<lambda>x. payment_status x = ''Paid'') (selected s st en))),
                   total_unpaid = foldl (+) 0 (map total_fee
                     (filter (\<lambda>x. payment_status x \<noteq> ''Paid'') (selected s st en))),
                   total_bookings = length (selected s st en),
                   report_appointments = selected s st en\<rparr>)"
    if h: "strptime_ymd a = Some st \<and> strptime_ymd b = Some en \<and> dates_parse (appointments s)"
    for st en
  proof -
    from h have "dates_parse (appointments s)" by simp
    from report_loop_folds [OF this, of st en
        "\<lparr>total_revenue = 0, total_paid = 0, total_unpaid = 0, total_bookings = 0,
          report_appointments = []\<rparr>"] h
    show ?thesis by (simp add: get_report_data_def selected_def)
  qed
  have raises: "get_report_data s a b = Inl ValueError"
    if h: "strptime_ymd a \<noteq> None \<and> strptime_ymd b \<noteq> None \<and> \<not> dates_parse (appointments s)"
  proof -
    from h obtain st en where "strptime_ymd a = Some st" "strptime_ymd b = Some en" by auto
    moreover from h have "\<not> dates_parse (appointments s)" by simp
    ultimately show ?thesis
      by (simp add: get_report_data_def report_loop_raises)
  qed
  from none some raises show ?thesis by blast
qed

theorem get_report_data_result_witness:
  "strptime_ymd ''yesterday'' = None \<and>
   get_report_data report_day ''yesterday'' ''2025-01-02'' = Inr None \<and>
   strptime_ymd ''2025-01-02'' = Some (2025, 1, 2) \<and>
   dates_parse (appointments report_day) \<and>
   (\<exists>r. get_report_data report_day ''2025-01-02'' ''2025-01-02'' = Inr (Some r) \<and>
      total_revenue r = 120 \<and> total_paid r = 50 \<and> total_unpaid r = 70 \<and>
      total_bookings r = 2 \<and> map app_id (report_appointments r) = [''a'', ''b'']) \<and>
   \<not> dates_parse (appointments mistyped) \<and>
   get_report_data mistyped ''2025-01-02'' ''2025-01-02'' = Inl ValueError"
proof -
  have bad: "strptime_ymd ''yesterday'' = None"
    by (simp add: date_simps)
  have day: "strptime_ymd ''2025-01-02'' = Some (2025, 1, 2)"
    by (simp add: date_simps)
  have next_day: "strptime_ymd ''2025-01-03'' = Some (2025, 1, 3)"
    by (simp add: date_simps)
  have word: "strptime_ymd ''tomorrow'' = None"
    by (simp add: date_simps)
  have dates: "dates_parse (appointments report_day)"
    by (simp add: dates_parse_def report_day_def visit_def first_start_def empty_store_def
          day next_day)
  have no_dates: "\<not> dates_parse (appointments mistyped)"
    by (simp add: dates_parse_def mistyped_def visit_def first_start_def empty_store_def word)
  have sel: "selected report_day (2025, 1, 2) (2025, 1, 2) =
      [(visit ''a'' ''2025-01-02'' ''09:00'')\<lparr>payment_status := ''Paid''\<rparr>,
       (visit ''b'' ''2025-01-02'' ''10:00'')\<lparr>total_fee := 70\<rparr>]"
    by (simp add: selected_def in_range_def report_day_def visit_def first_start_def
          empty_store_def day next_day)
  from bad get_report_data_result [of "''yesterday''" "''2025-01-02''" report_day]
  have none: "get_report_data report_day ''yesterday'' ''2025-01-02'' = Inr None"
    by blast
  from day no_dates get_report_data_result [of "''2025-01-02''" "''2025-01-02''" mistyped]
  have raises: "get_report_data mistyped ''2025-01-02'' ''2025-01-02'' = Inl ValueError"
    by simp
  from day dates get_report_data_result [of "''2025-01-02''" "''2025-01-02''" report_day]
  have "get_report_data report_day ''2025-01-02'' ''2025-01-02'' =
        Inr (Some \<lparr>total_revenue = foldl (+) 0 (map total_fee (selected report_day (2025, 1, 2) (2025, 1, 2))),
                   total_paid = foldl (+) 0 (map total_fee
                     (filter (\<lambda>x. payment_status x = ''Paid'') (selected report_day (2025, 1, 2) (2025, 1, 2)))),
                   total_unpaid = foldl (+) 0 (map total_fee
                     (filter (\<lambda>x. payment_status x \<noteq> ''Paid'') (selected report_day (2025, 1, 2) (2025, 1, 2)))),
                   total_bookings = length (selected report_day (2025, 1, 2) (2025, 1, 2)),
                   report_appointments = selected report_day (2025, 1, 2) (2025, 1, 2)\<rparr>)"
    by blast
  then have "\<exists>r. get_report_data report_day ''2025-01-02'' ''2025-01-02'' = Inr (Some r) \<and>
      total_revenue r = 120 \<and> total_paid r = 50 \<and> total_unpaid r = 70 \<and>
      total_bookings r = 2 \<and> map app_id (report_appointments r) = [''a'', ''b'']"
    unfolding sel by (simp add: visit_def)
  with bad none day dates no_dates raises show ?thesis by blast
qed

section \<open>Clients\<close>

lemma delete_loop_filter:
  "have_ids cs \<Longrightarrow>
   delete_loop cid cs = Inr (filter (\<lambda>client. client ''id'' \<noteq> Some (JStr cid)) cs)"
  by (induction cs) (auto simp: have_ids_def)

lemma delete_loop_raises:
  "\<not> have_ids cs \<Longrightarrow> delete_loop cid cs = Inl KeyError"
  by (induction cs) (auto simp: have_ids_def split: option.splits sum.splits)

text \<open>
  C9. Whenever \<open>delete_client\<close> returns, the appointments (and the settings) of the store
  are what they were before the call, also those that name the deleted client. It
  returns whenever every client has an \<open>id\<close>; otherwise it raises \<open>KeyError\<close> before
  anything is assigned.
\<close>

theorem delete_client_keeps_appointments:
  "(\<forall>b s'. delete_client s cid = Inr (b, s') \<longrightarrow>
      appointments s' = appointments s \<and> settings s' = settings s) \<and>
   (have_ids (clients s) \<longrightarrow>
      (\<exists>b. delete_client s cid =
         Inr (b, s\<lparr>clients := filter (\<lambda>client. client ''id'' \<noteq> Some (JStr cid)) (clients s)\<rparr>)))"
proof -
  have frame: "appointments s' = appointments s \<and> settings s' = settings s"
    if "delete_client s cid = Inr (b, s')" for b s'
  proof -
    from that obtain cs where "s' = s\<lparr>clients := cs\<rparr>"
      by (auto simp: delete_client_def Let_def split: sum.splits)
    then show ?thesis by simp
  qed
  have returns: "\<exists>b. delete_client s cid =
         Inr (b, s\<lparr>clients := filter (\<lambda>client. client ''id'' \<noteq> Some (JStr cid)) (clients s)\<rparr>)"
    if "have_ids (clients s)"
    using delete_loop_filter [OF that, of cid] by (simp add: delete_client_def Let_def)
  from frame returns show ?thesis by blast
qed

theorem delete_client_keeps_appointments_witness:
  "have_ids (clients with_clients) \<and>
   delete_client with_clients ''c1'' = Inr (True, with_clients\<lparr>clients := [bob]\<rparr>) \<and>
   appointments (with_clients\<lparr>clients := [bob]\<rparr>) = appointments with_clients \<and>
   map client_id (appointments with_clients) = [''c1'', ''c1'']"
proof -
  have ids: "have_ids (clients with_clients)"
    by (simp add: have_ids_def with_clients_def ann_def bob_def)
  have flt: "filter (\<lambda>client. client ''id'' \<noteq> Some (JStr ''c1'')) (clients with_clients) = [bob]"
    by (simp add: with_clients_def ann_def bob_def)
  have run: "delete_client with_clients ''c1'' = Inr (True, with_clients\<lparr>clients := [bob]\<rparr>)"
    by (simp add: delete_client_def Let_def delete_loop_filter [OF ids] flt)
      (simp add: with_clients_def)
  from delete_client_keeps_appointments [of with_clients "''c1''"] run
  have "appointments (with_clients\<lparr>clients := [bob]\<rparr>) = appointments with_clients"
    by blast
  moreover have "map client_id (appointments with_clients) = [''c1'', ''c1'']"
    by (simp add: with_clients_def one_day_def store_simps)
  ultimately show ?thesis using ids run by blast
qed

lemma update_loop_at:
  "first_client cs cid i \<Longrightarrow>
   update_loop cid new_info cs = Inr (Some (cs[i := (cs ! i) ++ new_info]))"
proof (induction cs arbitrary: i)
  case Nil
  then show ?case by (simp add: first_client_def)
next
  case (Cons c cs)
  show ?case
  proof (cases i)
    case 0
    with Cons.prems show ?thesis by (simp add: first_client_def)
  next
    case (Suc j)
    with Cons.prems obtain v where v: "c ''id'' = Some v" "v \<noteq> JStr cid"
      and rest: "first_client cs cid j"
      by (auto simp: first_client_def)
    from Cons.IH [OF rest] v Suc show ?thesis by simp
  qed
qed

text \<open>
  C10, as stated: every client of the store gets the values of the dictionary. An
  update of Ann with the identifier of Bob gives \<open>same_ids\<close>, where two clients have the
  identifier \<open>c2\<close>. There an update for \<open>c2\<close> changes the first of them, Bob, and leaves
  the second, Ann, with the name she had.
\<close>

theorem update_client_counterexample:
  "update_client with_clients ''c1'' [''id'' \<mapsto> JStr ''c2''] = Inr (True, same_ids) \<and>
   (clients same_ids ! 0) ''id'' = Some (JStr ''c2'') \<and>
   (clients same_ids ! 1) ''id'' = Some (JStr ''c2'') \<and>
   update_client same_ids ''c2'' [''name'' \<mapsto> JStr ''Zed''] =
     Inr (True, same_ids\<lparr>clients :=
       [bob ++ [''name'' \<mapsto> JStr ''Zed''], ann ++ [''id'' \<mapsto> JStr ''c2'']]\<rparr>) \<and>
   (bob ++ [''name'' \<mapsto> JStr ''Zed'']) ''name'' = Some (JStr ''Zed'') \<and>
   (ann ++ [''id'' \<mapsto> JStr ''c2'']) ''name'' = Some (JStr ''Ann'')"
  by (simp add: update_client_def with_clients_def same_ids_def ann_def bob_def)

text \<open>
  C10, amended. For the first client of the store whose \<open>id\<close> is the given string, the
  clients before it having another \<open>id\<close>, \<open>update_client\<close> succeeds and gives every key
  of the dictionary the value of the dictionary, the key \<open>id\<close> as any other, so that a
  dictionary with \<open>id\<close> changes the identifier of the client. The other keys of that
  client, every other client, also one with the same \<open>id\<close>, the appointments and the
  settings keep their values.
\<close>

theorem update_client_result:
  assumes "first_client (clients s) cid i"
  shows "\<exists>s'. update_client s cid new_info = Inr (True, s') \<and>
           appointments s' = appointments s \<and> settings s' = settings s \<and>
           length (clients s') = length (clients s) \<and>
           (\<forall>k v. new_info k = Some v \<longrightarrow> (clients s' ! i) k = Some v) \<and>
           (\<forall>k. new_info k = None \<longrightarrow> (clients s' ! i) k = (clients s ! i) k) \<and>
           (\<forall>j < length (clients s). j \<noteq> i \<longrightarrow> clients s' ! j = clients s ! j)"
proof -
  let ?s' = "s\<lparr>clients := (clients s)[i := (clients s ! i) ++ new_info]\<rparr>"
  from assms have i: "i < length (clients s)" by (simp add: first_client_def)
  from update_loop_at [OF assms] have run: "update_client s cid new_info = Inr (True, ?s')"
    by (simp add: update_client_def)
  from i have "\<forall>k v. new_info k = Some v \<longrightarrow> (clients ?s' ! i) k = Some v"
    by (simp add: map_add_def)
  moreover from i have "\<forall>k. new_info k = None \<longrightarrow> (clients ?s' ! i) k = (clients s ! i) k"
    by (simp add: map_add_def)
  moreover have "\<forall>j < length (clients s). j \<noteq> i \<longrightarrow> clients ?s' ! j = clients s ! j"
    by simp
  ultimately show ?thesis using run by (intro exI [of _ ?s']) simp
qed

theorem update_client_result_witness:
  "first_client (clients with_clients) ''c1'' 1 \<and>
   (\<exists>s'. update_client with_clients ''c1''
             [''id'' \<mapsto> JStr ''c9'', ''email'' \<mapsto> JStr ''ann@example.com''] = Inr (True, s') \<and>
      appointments s' = appointments with_clients \<and>
      (clients s' ! 1) ''id'' = Some (JStr ''c9'') \<and>
      (clients s' ! 1) ''email'' = Some (JStr ''ann@example.com'') \<and>
      (clients s' ! 1) ''name'' = Some (JStr ''Ann'') \<and>
      clients s' ! 0 = bob)"
proof -
  let ?info = "[''id'' \<mapsto> JStr ''c9'', ''email'' \<mapsto> JStr ''ann@example.com'']
      :: string \<rightharpoonup> rat json"
  have h: "first_client (clients with_clients) ''c1'' 1"
    by (simp add: first_client_def with_clients_def ann_def bob_def)
  have cs: "clients with_clients ! 1 = ann" "clients with_clients ! 0 = bob"
    "length (clients with_clients) = 2"
    by (simp_all add: with_clients_def)
  have info: "?info ''id'' = Some (JStr ''c9'')" "?info ''email'' = Some (JStr ''ann@example.com'')"
    "?info ''name'' = None"
    by simp_all
  have name: "ann ''name'' = Some (JStr ''Ann'')"
    by (simp add: ann_def)
  from update_client_result [OF h, of ?info] obtain s' where
    run: "update_client with_clients ''c1'' ?info = Inr (True, s')" and
    apps: "appointments s' = appointments with_clients" and
    new: "\<And>k v. ?info k = Some v \<Longrightarrow> (clients s' ! 1) k = Some v" and
    old: "\<And>k. ?info k = None \<Longrightarrow> (clients s' ! 1) k = (clients with_clients ! 1) k" and
    others: "\<And>j. j < length (clients with_clients) \<Longrightarrow> j \<noteq> 1 \<Longrightarrow>
               clients s' ! j = clients with_clients ! j"
    by blast
  from new [OF info(1)] have r1: "(clients s' ! 1) ''id'' = Some (JStr ''c9'')" .
  from new [OF info(2)] have r2: "(clients s' ! 1) ''email'' = Some (JStr ''ann@example.com'')" .
  from old [OF info(3)] cs name have r3: "(clients s' ! 1) ''name'' = Some (JStr ''Ann'')" by simp
  from others [of 0] cs have r4: "clients s' ! 0 = bob" by simp
  from h run apps r1 r2 r3 r4 show ?thesis by blast
qed

end
